theory Spec2Isabelle
  imports Main
begin

section \<open>Relational client (postgres/client.go)\<close>

subsection \<open>Data\<close>

text \<open>
  \<^verbatim>\<open>type User struct { ID int; Name string; Email string; CreatedAt string }\<close>
  One row of the table that \<^verbatim>\<open>CreateTable\<close> declares
  (id SERIAL PRIMARY KEY, name NOT NULL, email UNIQUE NOT NULL, created_at DEFAULT
  CURRENT_TIMESTAMP). Go's int and int64 are taken as unbounded integers: no claim
  depends on their width.
\<close>

record User =
  ID :: int
  Name :: string
  Email :: string
  CreatedAt :: string

text \<open>
  The errors the client can hand back: the engine's (relation missing, unique
  constraint, statement inside an aborted transaction), \<^verbatim>\<open>database/sql\<close>'s
  sentinels, a failure of the driver's connection, and the one error the client
  builds itself, \<^verbatim>\<open>fmt.Errorf("user with id %d not found", id)\<close>.
\<close>

datatype pg_error =
    UndefinedTable string
  | UniqueViolation string
  | InFailedSqlTransaction
  | ErrInFailedTransaction
  | ErrNoRows
  | BadArguments
  | DriverFault string
  | UserNotFound int

text \<open>
  The statements the source composes with \<^verbatim>\<open>fmt.Sprintf\<close>, one constructor per
  SQL text, carrying the spliced table name; the bound parameters travel separately,
  as they do in the source. The table name stands for an identifier the engine
  accepts: the source splices it unescaped and leaves its validity to the caller.
\<close>

datatype sql_stmt =
    CreateTableIfNotExists string
  | DropTableIfExists string
  | InsertReturningId string
  | InsertInto string
  | SelectById string
  | SelectAllOrderById string
  | UpdateNameEmailById string
  | DeleteById string

datatype sql_arg = ArgStr string | ArgInt int

record database =
  tables :: "string \<rightharpoonup> User list"
  seqs :: "string \<rightharpoonup> int"
  current_timestamp :: string

record sql_outcome =
  returned :: "User list"
  affected :: int

record sql_Result =
  RowsAffected :: "pg_error + int"

subsection \<open>The engine\<close>

text \<open>
  The relational engine is an external collaborator (section 6 of the spec), not
  part of the repository. The definitions of this subsection give its contract for
  the eight statements above: a table is created only when absent and dropped only
  when present; an insert takes the next value of the table's id sequence and is
  refused when the email collides; select, update and delete address rows by id.
  The id sequence is outside the transactional state (a value once taken is never
  handed out again), so it lives beside the tables.
\<close>

text \<open>
  Modelled from the spec: the engine's answer to a statement that returns no row and
  affects none (the engine is external).
\<close>

definition no_rows :: sql_outcome where
  "no_rows = \<lparr>returned = [], affected = 0\<rparr>"

text \<open>
  Modelled from the spec: the engine's INSERT (external). "insertUser -> new id or
  fails with UniqueConstraintError when email collides"; the id is the next value of
  the table's sequence, which stays taken when the insert is refused; created-at is
  the engine's current timestamp.
\<close>

definition insert_row ::
  "database \<Rightarrow> string \<Rightarrow> string \<Rightarrow> string \<Rightarrow> (pg_error + sql_outcome) \<times> database" where
  "insert_row d t name email =
     (case tables d t of
        None \<Rightarrow> (Inl (UndefinedTable t), d)
      | Some rs \<Rightarrow>
          (let i = (case seqs d t of None \<Rightarrow> 0 | Some n \<Rightarrow> n) + 1;
               d1 = d\<lparr>seqs := (seqs d)(t \<mapsto> i)\<rparr>;
               u = \<lparr>ID = i, Name = name, Email = email, CreatedAt = current_timestamp d\<rparr>
           in if i \<in> set (map ID rs) then (Inl (UniqueViolation (t @ ''_pkey'')), d1)
              else if email \<in> set (map Email rs)
                then (Inl (UniqueViolation (t @ ''_email_key'')), d1)
              else (Inr \<lparr>returned = [u], affected = 1\<rparr>,
                    d1\<lparr>tables := (tables d1)(t \<mapsto> rs @ [u])\<rparr>)))"

text \<open>
  Modelled from the spec: what the engine's UPDATE of the source
  (\<^verbatim>\<open>SET name = $1, email = $2 WHERE id = $3\<close>) does to one row (external).
\<close>

definition update_row :: "string \<Rightarrow> string \<Rightarrow> int \<Rightarrow> User \<Rightarrow> User" where
  "update_row name email i u = (if ID u = i then u\<lparr>Name := name, Email := email\<rparr> else u)"

text \<open>
  Modelled from the spec: the engine's UPDATE (external). No matching row: nothing
  affected. Otherwise the matching rows are rewritten unless the emails of the table
  would no longer be unique, and the rows affected are the matching ones.
\<close>

definition update_rows ::
  "database \<Rightarrow> string \<Rightarrow> string \<Rightarrow> string \<Rightarrow> int \<Rightarrow> (pg_error + sql_outcome) \<times> database" where
  "update_rows d t name email i =
     (case tables d t of
        None \<Rightarrow> (Inl (UndefinedTable t), d)
      | Some rs \<Rightarrow>
          (let hit = filter (\<lambda>u. ID u = i) rs;
               rs' = map (update_row name email i) rs
           in if hit = [] then (Inr no_rows, d)
              else if \<not> distinct (map Email rs')
                then (Inl (UniqueViolation (t @ ''_email_key'')), d)
              else (Inr \<lparr>returned = [], affected = int (length hit)\<rparr>,
                    d\<lparr>tables := (tables d)(t \<mapsto> rs')\<rparr>)))"

text \<open>
  Modelled from the spec: the engine's DELETE by id (external); the rows affected are
  the rows removed.
\<close>

definition delete_rows ::
  "database \<Rightarrow> string \<Rightarrow> int \<Rightarrow> (pg_error + sql_outcome) \<times> database" where
  "delete_rows d t i =
     (case tables d t of
        None \<Rightarrow> (Inl (UndefinedTable t), d)
      | Some rs \<Rightarrow>
          (let hit = filter (\<lambda>u. ID u = i) rs
           in (Inr \<lparr>returned = [], affected = int (length hit)\<rparr>,
               d\<lparr>tables := (tables d)(t \<mapsto> filter (\<lambda>u. ID u \<noteq> i) rs)\<rparr>)))"

text \<open>
  Modelled from the spec: the engine's SELECT (external), rows in ascending id
  ("ordered by id ascending").
\<close>

definition select_rows ::
  "database \<Rightarrow> string \<Rightarrow> (User \<Rightarrow> bool) \<Rightarrow> (pg_error + sql_outcome) \<times> database" where
  "select_rows d t p =
     (case tables d t of
        None \<Rightarrow> (Inl (UndefinedTable t), d)
      | Some rs \<Rightarrow> (Inr \<lparr>returned = sort_key ID (filter p rs), affected = 0\<rparr>, d))"

text \<open>
  Modelled from the spec: the engine executing one statement with its bound
  parameters (external). \<^verbatim>\<open>CREATE TABLE IF NOT EXISTS\<close> and
  \<^verbatim>\<open>DROP TABLE IF EXISTS\<close> are "idempotent (IF NOT EXISTS semantics)"; a
  statement with parameters of the wrong number or kind is refused.
\<close>

definition run_stmt ::
  "database \<Rightarrow> sql_stmt \<Rightarrow> sql_arg list \<Rightarrow> (pg_error + sql_outcome) \<times> database" where
  "run_stmt d q args =
     (case (q, args) of
        (CreateTableIfNotExists t, []) \<Rightarrow>
          (case tables d t of
             Some rs \<Rightarrow> (Inr no_rows, d)
           | None \<Rightarrow> (Inr no_rows, d\<lparr>tables := (tables d)(t \<mapsto> []), seqs := (seqs d)(t \<mapsto> 0)\<rparr>))
      | (DropTableIfExists t, []) \<Rightarrow>
          (case tables d t of
             None \<Rightarrow> (Inr no_rows, d)
           | Some rs \<Rightarrow> (Inr no_rows, d\<lparr>tables := (tables d)(t := None), seqs := (seqs d)(t := None)\<rparr>))
      | (InsertReturningId t, [ArgStr name, ArgStr email]) \<Rightarrow> insert_row d t name email
      | (InsertInto t, [ArgStr name, ArgStr email]) \<Rightarrow>
          (case insert_row d t name email of
             (Inl e, d') \<Rightarrow> (Inl e, d')
           | (Inr out, d') \<Rightarrow> (Inr (out\<lparr>returned := []\<rparr>), d'))
      | (SelectById t, [ArgInt i]) \<Rightarrow> select_rows d t (\<lambda>u. ID u = i)
      | (SelectAllOrderById t, []) \<Rightarrow> select_rows d t (\<lambda>u. True)
      | (UpdateNameEmailById t, [ArgStr name, ArgStr email, ArgInt i]) \<Rightarrow>
          update_rows d t name email i
      | (DeleteById t, [ArgInt i]) \<Rightarrow> delete_rows d t i
      | _ \<Rightarrow> (Inl BadArguments, d))"

subsection \<open>The driver: connection handle and transactions\<close>

text \<open>
  \<^verbatim>\<open>sqlx.DB\<close> and \<^verbatim>\<open>sqlx.Tx\<close> belong to the vendor driver, not to the
  repository. The client's handle (\<^verbatim>\<open>Client{db}\<close>) holds the committed
  database, the list of transaction calls it has received, and for each kind of call
  the error the driver will answer it with (none when the call goes through): begin,
  commit and rollback all return \<^verbatim>\<open>error\<close> in Go, so each may fail.
  A transaction works on its own copy of the tables; commit publishes the copy,
  rollback drops it. A statement that fails marks the transaction aborted: later
  statements are refused and a commit then rolls back and reports
  \<^verbatim>\<open>ErrInFailedTransaction\<close>. The work function handed a transaction uses
  it to execute statements only.
\<close>

datatype drv_call = CallBegin | CallCommit | CallRollback

record Client =
  db :: database
  faults :: "drv_call \<Rightarrow> pg_error option"
  trace :: "drv_call list"

record Tx =
  tx_db :: database
  tx_failed :: bool

datatype 'a go_result = Return 'a | Panic string

text \<open>
  Modelled from the spec: the driver noting a transaction call it received (external).
\<close>

definition called :: "drv_call \<Rightarrow> Client \<Rightarrow> Client" where
  "called k c = c\<lparr>trace := trace c @ [k]\<rparr>"

text \<open>
  Modelled from the spec: what outlives a transaction that is not committed, the id
  sequences it advanced (external).
\<close>

definition keep_seqs :: "Tx \<Rightarrow> Client \<Rightarrow> Client" where
  "keep_seqs tx c = c\<lparr>db := (db c)\<lparr>seqs := seqs (tx_db tx)\<rparr>\<rparr>"

text \<open>
  Modelled from the spec: the driver's \<^verbatim>\<open>BeginTxx\<close> (external): the driver's
  error, or a transaction on a copy of the committed database.
\<close>

definition BeginTxx :: "Client \<Rightarrow> (pg_error + Tx) \<times> Client" where
  "BeginTxx c =
     (case faults c CallBegin of
        Some e \<Rightarrow> (Inl e, called CallBegin c)
      | None \<Rightarrow> (Inr \<lparr>tx_db = db c, tx_failed = False\<rparr>, called CallBegin c))"

text \<open>
  Modelled from the spec: the driver's \<^verbatim>\<open>tx.Commit()\<close> (external), "success
  commits atomically": the whole copy is published, or, when the driver fails or the
  transaction is aborted, nothing is and the error is returned.
\<close>

definition Commit :: "Client \<Rightarrow> Tx \<Rightarrow> pg_error option \<times> Client" where
  "Commit c tx =
     (case faults c CallCommit of
        Some e \<Rightarrow> (Some e, keep_seqs tx (called CallCommit c))
      | None \<Rightarrow>
          if tx_failed tx then (Some ErrInFailedTransaction, keep_seqs tx (called CallCommit c))
          else (None, (called CallCommit c)\<lparr>db := tx_db tx\<rparr>))"

text \<open>
  Modelled from the spec: the driver's \<^verbatim>\<open>tx.Rollback()\<close> (external), "rollback
  of every statement executed so far in that transaction": the copy is dropped
  whether or not the driver reports an error.
\<close>

definition Rollback :: "Client \<Rightarrow> Tx \<Rightarrow> pg_error option \<times> Client" where
  "Rollback c tx =
     (case faults c CallRollback of
        Some e \<Rightarrow> (Some e, keep_seqs tx (called CallRollback c))
      | None \<Rightarrow> (None, keep_seqs tx (called CallRollback c)))"

text \<open>
  Modelled from the spec: the driver's \<^verbatim>\<open>sql.Result\<close> for an engine answer
  (external); this driver's \<^verbatim>\<open>RowsAffected\<close> does not fail.
\<close>

definition outcome_Result :: "sql_outcome \<Rightarrow> sql_Result" where
  "outcome_Result out = \<lparr>RowsAffected = Inr (affected out)\<rparr>"

text \<open>
  Modelled from the spec: the driver's \<^verbatim>\<open>db.ExecContext\<close> (external): one
  statement, committed at once.
\<close>

definition ExecContext ::
  "Client \<Rightarrow> sql_stmt \<Rightarrow> sql_arg list \<Rightarrow> (pg_error + sql_Result) \<times> Client" where
  "ExecContext c q args =
     (case run_stmt (db c) q args of
        (Inl e, d) \<Rightarrow> (Inl e, c\<lparr>db := d\<rparr>)
      | (Inr out, d) \<Rightarrow> (Inr (outcome_Result out), c\<lparr>db := d\<rparr>))"

text \<open>
  Modelled from the spec: the driver's \<^verbatim>\<open>db.SelectContext\<close> (external): all
  rows of the answer.
\<close>

definition SelectContext ::
  "Client \<Rightarrow> sql_stmt \<Rightarrow> sql_arg list \<Rightarrow> (pg_error + User list) \<times> Client" where
  "SelectContext c q args =
     (case run_stmt (db c) q args of
        (Inl e, d) \<Rightarrow> (Inl e, c\<lparr>db := d\<rparr>)
      | (Inr out, d) \<Rightarrow> (Inr (returned out), c\<lparr>db := d\<rparr>))"

text \<open>
  Modelled from the spec: the driver's \<^verbatim>\<open>db.GetContext\<close> (external): the first
  row, or \<^verbatim>\<open>sql.ErrNoRows\<close>.
\<close>

definition GetContext ::
  "Client \<Rightarrow> sql_stmt \<Rightarrow> sql_arg list \<Rightarrow> (pg_error + User) \<times> Client" where
  "GetContext c q args =
     (case SelectContext c q args of
        (Inl e, c') \<Rightarrow> (Inl e, c')
      | (Inr [], c') \<Rightarrow> (Inl ErrNoRows, c')
      | (Inr (u # us), c') \<Rightarrow> (Inr u, c'))"

text \<open>
  Modelled from the spec: the driver's \<^verbatim>\<open>QueryRowContext(...).Scan\<close>
  (external): the first row, or \<^verbatim>\<open>sql.ErrNoRows\<close>.
\<close>

definition QueryRowContext ::
  "Client \<Rightarrow> sql_stmt \<Rightarrow> sql_arg list \<Rightarrow> (pg_error + User) \<times> Client" where
  "QueryRowContext c q args =
     (case SelectContext c q args of
        (Inl e, c') \<Rightarrow> (Inl e, c')
      | (Inr [], c') \<Rightarrow> (Inl ErrNoRows, c')
      | (Inr (u # us), c') \<Rightarrow> (Inr u, c'))"

text \<open>
  Modelled from the spec: the driver's \<^verbatim>\<open>tx.ExecContext\<close> (external): one
  statement on the transaction's copy; a refused statement aborts the transaction.
\<close>

definition Tx_ExecContext ::
  "Tx \<Rightarrow> sql_stmt \<Rightarrow> sql_arg list \<Rightarrow> (pg_error + sql_Result) \<times> Tx" where
  "Tx_ExecContext tx q args =
     (if tx_failed tx then (Inl InFailedSqlTransaction, tx)
      else case run_stmt (tx_db tx) q args of
        (Inl e, d) \<Rightarrow> (Inl e, tx\<lparr>tx_db := (tx_db tx)\<lparr>seqs := seqs d\<rparr>, tx_failed := True\<rparr>)
      | (Inr out, d) \<Rightarrow> (Inr (outcome_Result out), tx\<lparr>tx_db := d\<rparr>))"

subsection \<open>The client's methods\<close>

text \<open>\<^verbatim>\<open>CreateTable\<close>: one \<^verbatim>\<open>CREATE TABLE IF NOT EXISTS\<close>, its error returned.\<close>

definition CreateTable :: "Client \<Rightarrow> string \<Rightarrow> pg_error option \<times> Client" where
  "CreateTable c tableName =
     (let query = CreateTableIfNotExists tableName
      in case ExecContext c query [] of
        (Inl err, c') \<Rightarrow> (Some err, c')
      | (Inr result, c') \<Rightarrow> (None, c'))"

text \<open>\<^verbatim>\<open>DropTable\<close>: one \<^verbatim>\<open>DROP TABLE IF EXISTS\<close>, its error returned.\<close>

definition DropTable :: "Client \<Rightarrow> string \<Rightarrow> pg_error option \<times> Client" where
  "DropTable c tableName =
     (let query = DropTableIfExists tableName
      in case ExecContext c query [] of
        (Inl err, c') \<Rightarrow> (Some err, c')
      | (Inr result, c') \<Rightarrow> (None, c'))"

text \<open>
  \<^verbatim>\<open>InsertUser\<close>: \<^verbatim>\<open>INSERT ... RETURNING id\<close> scanned into \<^verbatim>\<open>id\<close>; the
  source returns \<^verbatim>\<open>id\<close> (zero when the scan failed) together with the error.
\<close>

definition InsertUser ::
  "Client \<Rightarrow> string \<Rightarrow> string \<Rightarrow> string \<Rightarrow> (int \<times> pg_error option) \<times> Client" where
  "InsertUser c tableName name email =
     (let query = InsertReturningId tableName
      in case QueryRowContext c query [ArgStr name, ArgStr email] of
        (Inl err, c') \<Rightarrow> ((0, Some err), c')
      | (Inr u, c') \<Rightarrow> ((ID u, None), c'))"

text \<open>
  \<^verbatim>\<open>GetUser\<close>: \<^verbatim>\<open>sql.ErrNoRows\<close> becomes \<^verbatim>\<open>(nil, nil)\<close>, any other error is
  returned, a row is returned as \<^verbatim>\<open>&user\<close>.
\<close>

definition GetUser :: "Client \<Rightarrow> string \<Rightarrow> int \<Rightarrow> (pg_error + User option) \<times> Client" where
  "GetUser c tableName i =
     (let query = SelectById tableName
      in case GetContext c query [ArgInt i] of
        (Inl err, c') \<Rightarrow> (if err = ErrNoRows then (Inr None, c') else (Inl err, c'))
      | (Inr user, c') \<Rightarrow> (Inr (Some user), c'))"

definition GetAllUsers :: "Client \<Rightarrow> string \<Rightarrow> (pg_error + User list) \<times> Client" where
  "GetAllUsers c tableName =
     (let query = SelectAllOrderById tableName in SelectContext c query [])"

text \<open>
  \<^verbatim>\<open>UpdateUser\<close>: the statement's error, then \<^verbatim>\<open>RowsAffected\<close>'s error, then
  the not-found error when no row was affected.
\<close>

definition UpdateUser ::
  "Client \<Rightarrow> string \<Rightarrow> int \<Rightarrow> string \<Rightarrow> string \<Rightarrow> pg_error option \<times> Client" where
  "UpdateUser c tableName i name email =
     (let query = UpdateNameEmailById tableName
      in case ExecContext c query [ArgStr name, ArgStr email, ArgInt i] of
        (Inl err, c') \<Rightarrow> (Some err, c')
      | (Inr result, c') \<Rightarrow>
          (case RowsAffected result of
             Inl err \<Rightarrow> (Some err, c')
           | Inr rowsAffected \<Rightarrow>
               if rowsAffected = 0 then (Some (UserNotFound i), c') else (None, c')))"

definition DeleteUser :: "Client \<Rightarrow> string \<Rightarrow> int \<Rightarrow> pg_error option \<times> Client" where
  "DeleteUser c tableName i =
     (let query = DeleteById tableName
      in case ExecContext c query [ArgInt i] of
        (Inl err, c') \<Rightarrow> (Some err, c')
      | (Inr result, c') \<Rightarrow>
          (case RowsAffected result of
             Inl err \<Rightarrow> (Some err, c')
           | Inr rowsAffected \<Rightarrow>
               if rowsAffected = 0 then (Some (UserNotFound i), c') else (None, c')))"

definition BeginTransaction :: "Client \<Rightarrow> (pg_error + Tx) \<times> Client" where
  "BeginTransaction c = BeginTxx c"

text \<open>
  \<^verbatim>\<open>ExecuteInTransaction\<close>. The work function either returns (an error or nil)
  or panics; it hands back the transaction as it left it. A begin error is returned
  at once. A panic is recovered by the deferred function, which calls
  \<^verbatim>\<open>tx.Rollback()\<close> and panics again with the same value. An error from the work
  function is followed by \<^verbatim>\<open>tx.Rollback()\<close>, whose own result the source drops,
  and is returned. Otherwise the result is that of \<^verbatim>\<open>tx.Commit()\<close>.
\<close>

definition ExecuteInTransaction ::
  "Client \<Rightarrow> (Tx \<Rightarrow> (pg_error option) go_result \<times> Tx) \<Rightarrow> (pg_error option) go_result \<times> Client" where
  "ExecuteInTransaction c fn =
     (case BeginTransaction c of
        (Inl err, c1) \<Rightarrow> (Return (Some err), c1)
      | (Inr tx, c1) \<Rightarrow>
          (case fn tx of
             (Panic p, tx1) \<Rightarrow> (case Rollback c1 tx1 of (dropped, c2) \<Rightarrow> (Panic p, c2))
           | (Return (Some err), tx1) \<Rightarrow>
               (case Rollback c1 tx1 of (dropped, c2) \<Rightarrow> (Return (Some err), c2))
           | (Return None, tx1) \<Rightarrow>
               (case Commit c1 tx1 of (r, c2) \<Rightarrow> (Return r, c2))))"

text \<open>
  The number of rows a statement affects on a database: what the engine reports
  when it accepts the statement, and none when it refuses it.
\<close>

definition rows_affected :: "database \<Rightarrow> sql_stmt \<Rightarrow> sql_arg list \<Rightarrow> int" where
  "rows_affected d q args =
     (case run_stmt d q args of (Inl e, d') \<Rightarrow> 0 | (Inr out, d') \<Rightarrow> affected out)"

subsection \<open>The transaction test's work functions and fixtures\<close>

text \<open>
  \<^verbatim>\<open>TestPostgreSQLTransaction\<close> passes two closures of one shape: insert a first
  row, return its error if any, insert a second row and return that statement's
  error. The rows are those of the test (Bob Johnson, then the address John Doe
  already holds) and one more with an address nobody holds.
\<close>

definition two_inserts ::
  "string \<Rightarrow> string \<times> string \<Rightarrow> string \<times> string \<Rightarrow> Tx \<Rightarrow> (pg_error option) go_result \<times> Tx" where
  "two_inserts tableName a b tx =
     (let query = InsertInto tableName
      in case Tx_ExecContext tx query [ArgStr (fst a), ArgStr (snd a)] of
        (Inl err, tx1) \<Rightarrow> (Return (Some err), tx1)
      | (Inr r1, tx1) \<Rightarrow>
          (case Tx_ExecContext tx1 query [ArgStr (fst b), ArgStr (snd b)] of
             (Inl err, tx2) \<Rightarrow> (Return (Some err), tx2)
           | (Inr r2, tx2) \<Rightarrow> (Return None, tx2)))"

definition john :: User where
  "john = \<lparr>ID = 1, Name = ''John Doe'', Email = ''john@example.com'', CreatedAt = ''t0''\<rparr>"

definition jane :: User where
  "jane = \<lparr>ID = 2, Name = ''Jane Doe'', Email = ''jane@example.com'', CreatedAt = ''t0''\<rparr>"

definition empty_db :: database where
  "empty_db = \<lparr>tables = Map.empty, seqs = Map.empty, current_timestamp = ''t0''\<rparr>"

text \<open>
  The database after the test has created table users and committed its first
  transaction, John Doe and Jane Doe.
\<close>

definition users_db :: database where
  "users_db = \<lparr>tables = [''users'' \<mapsto> [john, jane]], seqs = [''users'' \<mapsto> 2],
                current_timestamp = ''t0''\<rparr>"

definition bob :: "string \<times> string" where
  "bob = (''Bob Johnson'', ''bob@example.com'')"

definition another :: "string \<times> string" where
  "another = (''Another User'', ''john@example.com'')"

definition carol :: "string \<times> string" where
  "carol = (''Carol King'', ''carol@example.com'')"

definition connect :: "database \<Rightarrow> Client" where
  "connect d = \<lparr>db = d, faults = (\<lambda>k. None), trace = []\<rparr>"

definition failing :: "drv_call \<Rightarrow> pg_error \<Rightarrow> Client \<Rightarrow> Client" where
  "failing k e c = c\<lparr>faults := (faults c)(k := Some e)\<rparr>"

section \<open>Cache client (redis/client.go)\<close>

subsection \<open>The cache service\<close>

text \<open>
  The key-value service and its vendor client are external collaborators (section 6
  of the spec); the repository's client only forwards to them. The service holds
  strings and lists under keys, each with an optional expiry instant, and a clock.
  A key whose expiry instant has been reached is absent for every command.
  Durations and the clock count the service's time unit.
  \<^verbatim>\<open>SET\<close> with a positive expiration sets the expiry, with \<^verbatim>\<open>KeepTTL\<close> (-1)
  keeps the one in place, and otherwise stores the key without expiry.
  \<^verbatim>\<open>LRANGE\<close> takes inclusive offsets, negative ones counting from the end of the
  list (-1 is the last element), and clips them to the list.
\<close>

datatype redis_error = RedisNil | WrongType | WrongNumberOfArguments

datatype redis_value = Str string | Lst "string list"

record entry =
  content :: redis_value
  expire_at :: "nat option"

record rdb =
  keyspace :: "string \<rightharpoonup> entry"
  clock :: nat

text \<open>
  Modelled from the spec: the entry a command finds under a key (external service):
  none when the key is not stored or its expiry instant has been reached.
\<close>

definition live :: "rdb \<Rightarrow> string \<Rightarrow> entry option" where
  "live r k =
     (case keyspace r k of
        None \<Rightarrow> None
      | Some e \<Rightarrow>
          (case expire_at e of
             None \<Rightarrow> Some e
           | Some t \<Rightarrow> if t \<le> clock r then None else Some e))"

text \<open>
  Modelled from the spec: time passing on the service's clock (the tests'
  \<^verbatim>\<open>time.Sleep\<close>).
\<close>

definition sleep :: "nat \<Rightarrow> rdb \<Rightarrow> rdb" where
  "sleep d r = r\<lparr>clock := clock r + d\<rparr>"

text \<open>
  Modelled from the spec: the vendor client's constant \<^verbatim>\<open>KeepTTL\<close> (external).
\<close>

definition KeepTTL :: int where
  "KeepTTL = -1"

text \<open>
  Modelled from the spec: the service's SET as the vendor client sends it for
  \<^verbatim>\<open>Set(key, value, expiration)\<close> (external): "set(key, value, ttl)".
\<close>

definition cmd_set :: "rdb \<Rightarrow> string \<Rightarrow> string \<Rightarrow> int \<Rightarrow> redis_error option \<times> rdb" where
  "cmd_set r k v expiration =
     (let ex = (if expiration > 0 then Some (clock r + nat expiration)
                else if expiration = KeepTTL
                  then (case live r k of None \<Rightarrow> None | Some e \<Rightarrow> expire_at e)
                else None)
      in (None, r\<lparr>keyspace := (keyspace r)(k \<mapsto> \<lparr>content = Str v, expire_at = ex\<rparr>)\<rparr>))"

text \<open>
  Modelled from the spec: the service's GET (external): "get(key) -> value or fails
  with NotFoundError/ExpiredError", both surfacing as the one error
  \<^verbatim>\<open>redis.Nil\<close>.
\<close>

definition cmd_get :: "rdb \<Rightarrow> string \<Rightarrow> redis_error + string" where
  "cmd_get r k =
     (case live r k of
        None \<Rightarrow> Inl RedisNil
      | Some e \<Rightarrow> (case content e of Str v \<Rightarrow> Inr v | Lst xs \<Rightarrow> Inl WrongType))"

text \<open>
  Modelled from the spec: the service's DEL over its keys, counting those that were
  there (external).
\<close>

fun del_keys :: "string list \<Rightarrow> rdb \<Rightarrow> int \<times> rdb" where
  "del_keys [] r = (0, r)"
| "del_keys (k # ks) r =
     (let n = (case live r k of None \<Rightarrow> 0 | Some e \<Rightarrow> 1);
          (m, r') = del_keys ks (r\<lparr>keyspace := (keyspace r)(k := None)\<rparr>)
      in (n + m, r'))"

text \<open>
  Modelled from the spec: the service's DEL (external): "delete(keys...)"; at least
  one key is required.
\<close>

definition cmd_del :: "rdb \<Rightarrow> string list \<Rightarrow> (redis_error + int) \<times> rdb" where
  "cmd_del r ks =
     (if ks = [] then (Inl WrongNumberOfArguments, r)
      else case del_keys ks r of (n, r') \<Rightarrow> (Inr n, r'))"

text \<open>
  Modelled from the spec: the list a list command finds under a key (external
  service): empty when the key is absent, a type error when it holds a string.
\<close>

definition list_at :: "rdb \<Rightarrow> string \<Rightarrow> redis_error + string list" where
  "list_at r k =
     (case live r k of
        None \<Rightarrow> Inr []
      | Some e \<Rightarrow> (case content e of Lst xs \<Rightarrow> Inr xs | Str v \<Rightarrow> Inl WrongType))"

text \<open>
  Modelled from the spec: the service storing a list under a key, its expiry kept
  (external).
\<close>

definition store_list :: "rdb \<Rightarrow> string \<Rightarrow> string list \<Rightarrow> rdb" where
  "store_list r k xs =
     r\<lparr>keyspace := (keyspace r)(k \<mapsto>
        \<lparr>content = Lst xs,
         expire_at = (case live r k of None \<Rightarrow> None | Some e \<Rightarrow> expire_at e)\<rparr>)\<rparr>"

text \<open>
  Modelled from the spec: the service's RPUSH (external), "list push-right": the
  values are appended in the order given.
\<close>

definition cmd_rpush :: "rdb \<Rightarrow> string \<Rightarrow> string list \<Rightarrow> (redis_error + int) \<times> rdb" where
  "cmd_rpush r k vs =
     (if vs = [] then (Inl WrongNumberOfArguments, r)
      else case list_at r k of
        Inl e \<Rightarrow> (Inl e, r)
      | Inr xs \<Rightarrow> (Inr (int (length (xs @ vs))), store_list r k (xs @ vs)))"

text \<open>
  Modelled from the spec: the service's LPUSH (external), "list push-left": each
  value in turn becomes the head, so the values end up reversed.
\<close>

definition cmd_lpush :: "rdb \<Rightarrow> string \<Rightarrow> string list \<Rightarrow> (redis_error + int) \<times> rdb" where
  "cmd_lpush r k vs =
     (if vs = [] then (Inl WrongNumberOfArguments, r)
      else case list_at r k of
        Inl e \<Rightarrow> (Inl e, r)
      | Inr xs \<Rightarrow> (Inr (int (length (rev vs @ xs))), store_list r k (rev vs @ xs)))"

text \<open>
  Modelled from the spec: the service's range of a list (external): "inclusive
  start/inclusive -1 means last element indexing semantics"; negative offsets count
  from the end, offsets beyond the list are clipped.
\<close>

definition lrange :: "'a list \<Rightarrow> int \<Rightarrow> int \<Rightarrow> 'a list" where
  "lrange xs start stop =
     (let n = int (length xs);
          s0 = (if start < 0 then n + start else start);
          e0 = (if stop < 0 then n + stop else stop);
          s = (if s0 < 0 then 0 else s0)
      in if s > e0 \<or> s \<ge> n then []
         else let e = (if e0 \<ge> n then n - 1 else e0)
              in take (nat (e - s + 1)) (drop (nat s) xs))"

text \<open>
  Modelled from the spec: the service's LRANGE (external), "list range".
\<close>

definition cmd_lrange :: "rdb \<Rightarrow> string \<Rightarrow> int \<Rightarrow> int \<Rightarrow> redis_error + string list" where
  "cmd_lrange r k start stop =
     (case list_at r k of
        Inl e \<Rightarrow> Inl e
      | Inr xs \<Rightarrow> Inr (lrange xs start stop))"

subsection \<open>The client's methods\<close>

text \<open>
  Each method is the source's one call into the vendor client:
  \<^verbatim>\<open>c.rdb.Set(...).Err()\<close>, \<^verbatim>\<open>c.rdb.Get(...).Result()\<close>,
  \<^verbatim>\<open>c.rdb.Del(...).Err()\<close>, \<^verbatim>\<open>c.rdb.LPush(...).Err()\<close>,
  \<^verbatim>\<open>c.rdb.RPush(...).Err()\<close>, \<^verbatim>\<open>c.rdb.LRange(...).Result()\<close>.
  \<^verbatim>\<open>Err()\<close> keeps the error and drops the reply.
\<close>

definition Set :: "rdb \<Rightarrow> string \<Rightarrow> string \<Rightarrow> int \<Rightarrow> redis_error option \<times> rdb" where
  "Set r key v expiration = cmd_set r key v expiration"

definition Get :: "rdb \<Rightarrow> string \<Rightarrow> redis_error + string" where
  "Get r key = cmd_get r key"

definition Delete :: "rdb \<Rightarrow> string list \<Rightarrow> redis_error option \<times> rdb" where
  "Delete r ks =
     (case cmd_del r ks of
        (Inl err, r') \<Rightarrow> (Some err, r')
      | (Inr n, r') \<Rightarrow> (None, r'))"

definition LPush :: "rdb \<Rightarrow> string \<Rightarrow> string list \<Rightarrow> redis_error option \<times> rdb" where
  "LPush r key vs =
     (case cmd_lpush r key vs of
        (Inl err, r') \<Rightarrow> (Some err, r')
      | (Inr n, r') \<Rightarrow> (None, r'))"

definition RPush :: "rdb \<Rightarrow> string \<Rightarrow> string list \<Rightarrow> redis_error option \<times> rdb" where
  "RPush r key vs =
     (case cmd_rpush r key vs of
        (Inl err, r') \<Rightarrow> (Some err, r')
      | (Inr n, r') \<Rightarrow> (None, r'))"

definition LRange :: "rdb \<Rightarrow> string \<Rightarrow> int \<Rightarrow> int \<Rightarrow> redis_error + string list" where
  "LRange r key start stop = cmd_lrange r key start stop"

definition fresh_rdb :: rdb where
  "fresh_rdb = \<lparr>keyspace = Map.empty, clock = 0\<rparr>"

section \<open>Document-store client (dynamodb/client.go)\<close>

subsection \<open>The document service\<close>

text \<open>
  \<^verbatim>\<open>types.AttributeValue\<close> with its string and number members; an item
  (\<^verbatim>\<open>map[string]types.AttributeValue\<close>) is a list of attribute bindings, and
  \<^verbatim>\<open>None\<close> stands for Go's nil map where the source can hold one.
\<close>

datatype AttributeValue = AttributeValueMemberS string | AttributeValueMemberN string

type_synonym item = "(string \<times> AttributeValue) list"

datatype ddb_error =
    ResourceNotFoundException
  | ValidationException
  | ConditionalCheckFailedException

record ddb =
  ddb_tables :: "string \<rightharpoonup> (string \<rightharpoonup> item)"

text \<open>
  The request records of the vendor SDK, with the fields the source sets or could
  set. \<^verbatim>\<open>UpdateItemInput\<close> repeats the two fields of \<^verbatim>\<open>GetItemInput\<close>, so it
  is written as its extension.
\<close>

record GetItemInput =
  TableName :: string
  Key :: item

record UpdateItemInput = GetItemInput +
  UpdateExpression :: string
  ExpressionAttributeValues :: "item option"
  ExpressionAttributeNames :: "(string \<times> string) list option"

record GetItemOutput =
  Item :: "item option"

text \<open>
  The document service is an external collaborator (section 6 of the spec). Its
  tables have the single hash key \<^verbatim>\<open>id\<close> of string type, as
  \<^verbatim>\<open>CreateTable\<close> declares them. Reading answers with the stored item, or with no
  item when the key is absent. An update is covered for the expression shape the
  repository's test sends, \<^verbatim>\<open>SET path = :value\<close>: a path written \<^verbatim>\<open>#alias\<close>
  is looked up among the request's expression attribute names, the value among its
  expression attribute values, and a reference that cannot be resolved, like any
  other shape of expression, is a validation error.
\<close>

text \<open>
  Modelled from the spec: the service reading a key (external): "single hash-key id,
  string type"; any other shape of key does not fit the table's schema.
\<close>

definition key_id :: "item \<Rightarrow> string option" where
  "key_id k =
     (case k of
        [(a, AttributeValueMemberS s)] \<Rightarrow> if a = ''id'' then Some s else None
      | _ \<Rightarrow> None)"

text \<open>
  Modelled from the spec: the service's GetItem (external): "getItem(key) -> item or
  empty result (not an error) when absent".
\<close>

definition svc_GetItem :: "ddb \<Rightarrow> GetItemInput \<Rightarrow> ddb_error + GetItemOutput" where
  "svc_GetItem d req =
     (case ddb_tables d (TableName req) of
        None \<Rightarrow> Inl ResourceNotFoundException
      | Some tb \<Rightarrow>
          (case key_id (Key req) of
             None \<Rightarrow> Inl ValidationException
           | Some i \<Rightarrow> Inr \<lparr>Item = tb i\<rparr>))"

text \<open>
  Modelled from the spec: the service splitting an expression at blanks (external).
\<close>

fun split_words :: "string \<Rightarrow> string \<Rightarrow> string list" where
  "split_words w [] = (if w = [] then [] else [w])"
| "split_words w (c # cs) =
     (if c = CHR '' ''
      then (if w = [] then split_words [] cs else w # split_words [] cs)
      else split_words (w @ [c]) cs)"

text \<open>
  Modelled from the spec: the words of an expression (external service).
\<close>

definition words_of :: "string \<Rightarrow> string list" where
  "words_of s = split_words [] s"

text \<open>
  Modelled from the spec: the service resolving the path of an update (external): an
  alias \<^verbatim>\<open>#name\<close> needs an entry among the expression attribute names.
\<close>

definition resolve_path :: "(string \<times> string) list option \<Rightarrow> string \<Rightarrow> ddb_error + string" where
  "resolve_path names p =
     (case p of
        [] \<Rightarrow> Inl ValidationException
      | c # cs \<Rightarrow>
          if c = CHR ''#''
          then (case names of
                  None \<Rightarrow> Inl ValidationException
                | Some al \<Rightarrow> (case map_of al p of None \<Rightarrow> Inl ValidationException | Some a \<Rightarrow> Inr a))
          else Inr p)"

text \<open>
  Modelled from the spec: the service resolving a value reference among the
  expression attribute values (external).
\<close>

definition resolve_value :: "item option \<Rightarrow> string \<Rightarrow> ddb_error + AttributeValue" where
  "resolve_value vals v =
     (case vals of
        None \<Rightarrow> Inl ValidationException
      | Some al \<Rightarrow> (case map_of al v of None \<Rightarrow> Inl ValidationException | Some x \<Rightarrow> Inr x))"

text \<open>
  Modelled from the spec: the service setting one attribute of an item (external).
\<close>

definition set_attr :: "item \<Rightarrow> string \<Rightarrow> AttributeValue \<Rightarrow> item" where
  "set_attr it a x = (a, x) # filter (\<lambda>b. fst b \<noteq> a) it"

text \<open>
  Modelled from the spec: the service's UpdateItem (external): "updateItem(key,
  update-expression, expression values, optional expression attribute name aliases)
  -> fails with ConditionalCheckError or ValidationError on malformed expressions",
  for updates of the shape \<^verbatim>\<open>SET path = :value\<close>.
\<close>

definition svc_UpdateItem :: "ddb \<Rightarrow> UpdateItemInput \<Rightarrow> ddb_error option \<times> ddb" where
  "svc_UpdateItem d req =
     (case ddb_tables d (TableName req) of
        None \<Rightarrow> (Some ResourceNotFoundException, d)
      | Some tb \<Rightarrow>
          (case key_id (Key req) of
             None \<Rightarrow> (Some ValidationException, d)
           | Some i \<Rightarrow>
               (case words_of (UpdateExpression req) of
                  [kw, p, eq, v] \<Rightarrow>
                    if kw = ''SET'' \<and> eq = ''=''
                    then (case resolve_path (ExpressionAttributeNames req) p of
                            Inl e \<Rightarrow> (Some e, d)
                          | Inr a \<Rightarrow>
                              (case resolve_value (ExpressionAttributeValues req) v of
                                 Inl e \<Rightarrow> (Some e, d)
                               | Inr x \<Rightarrow>
                                   (let old = (case tb i of None \<Rightarrow> Key req | Some it \<Rightarrow> it)
                                    in (None, d\<lparr>ddb_tables := (ddb_tables d)(TableName req \<mapsto>
                                                  tb(i \<mapsto> set_attr old a x))\<rparr>))))
                    else (Some ValidationException, d)
                | _ \<Rightarrow> (Some ValidationException, d))))"

subsection \<open>The client's methods\<close>

text \<open>
  \<^verbatim>\<open>GetItem\<close>: the service's error, or \<^verbatim>\<open>result.Item\<close>.
\<close>

definition GetItem :: "ddb \<Rightarrow> string \<Rightarrow> item \<Rightarrow> ddb_error + item option" where
  "GetItem d tableName key =
     (case svc_GetItem d \<lparr>TableName = tableName, Key = key\<rparr> of
        Inl err \<Rightarrow> Inl err
      | Inr result \<Rightarrow> Inr (Item result))"

text \<open>
  \<^verbatim>\<open>UpdateItem\<close> takes the table name, the key, the update expression and the
  expression attribute values, and fills exactly these four fields of the request;
  \<^verbatim>\<open>ExpressionAttributeNames\<close> is left at Go's zero value, nil.
\<close>

definition UpdateItem_request ::
  "string \<Rightarrow> item \<Rightarrow> string \<Rightarrow> item option \<Rightarrow> UpdateItemInput" where
  "UpdateItem_request tableName key updateExpression expressionAttributeValues =
     \<lparr>TableName = tableName, Key = key, UpdateExpression = updateExpression,
      ExpressionAttributeValues = expressionAttributeValues,
      ExpressionAttributeNames = None\<rparr>"

definition UpdateItem ::
  "ddb \<Rightarrow> string \<Rightarrow> item \<Rightarrow> string \<Rightarrow> item option \<Rightarrow> ddb_error option \<times> ddb" where
  "UpdateItem d tableName key updateExpression expressionAttributeValues =
     svc_UpdateItem d
       (UpdateItem_request tableName key updateExpression expressionAttributeValues)"

text \<open>
  The state \<^verbatim>\<open>TestDynamoDBUpdateItem\<close> reaches before its update: table
  \<^verbatim>\<open>users-update\<close> holding the one item it has put.
\<close>

definition user1_key :: item where
  "user1_key = [(''id'', AttributeValueMemberS ''user-1'')]"

definition user1_item :: item where
  "user1_item = [(''id'', AttributeValueMemberS ''user-1''),
                 (''name'', AttributeValueMemberS ''John Doe'')]"

definition users_update_ddb :: ddb where
  "users_update_ddb = \<lparr>ddb_tables = [''users-update'' \<mapsto> [''user-1'' \<mapsto> user1_item]]\<rparr>"

section \<open>Teardown in the test harness\<close>

text \<open>
  \<^verbatim>\<open>testing.T\<close> as far as teardown touches it: whether the test is marked failed,
  and the lines it has logged. \<^verbatim>\<open>testcontainers.TerminateContainer\<close> is an
  external call; its result (nil or an error, here the error's text) is the input
  of each teardown path. A path ends by returning, by \<^verbatim>\<open>runtime.Goexit\<close>
  (what \<^verbatim>\<open>t.FailNow\<close> does) or by a panic; \<^verbatim>\<open>TestMain\<close> ends the process.
\<close>

record T =
  failed :: bool
  logs :: "string list"

datatype teardown_end = Returned T | Goexit T | Panicked string

datatype process_end = Exit int | PanicExit string

definition Logf :: "T \<Rightarrow> string \<Rightarrow> T" where
  "Logf t msg = t\<lparr>logs := logs t @ [msg]\<rparr>"

definition Fatalf :: "T \<Rightarrow> string \<Rightarrow> teardown_end" where
  "Fatalf t msg = Goexit ((Logf t msg)\<lparr>failed := True\<rparr>)"

text \<open>
  The cleanup closure \<^verbatim>\<open>setupPostgres\<close> returns (postgres/client_test.go).
\<close>

definition setupPostgres_cleanup :: "T \<Rightarrow> string option \<Rightarrow> teardown_end" where
  "setupPostgres_cleanup t terminated =
     (case terminated of
        Some err \<Rightarrow> Fatalf t (''failed to terminate container: '' @ err)
      | None \<Rightarrow> Returned t)"

text \<open>The deferred closures of \<^verbatim>\<open>TestMultiContainerIntegration\<close>.\<close>

definition integration_deferred :: "string \<Rightarrow> T \<Rightarrow> string option \<Rightarrow> teardown_end" where
  "integration_deferred service t terminated =
     (case terminated of
        Some err \<Rightarrow>
          Returned (Logf t (''failed to terminate '' @ service @ '' container: '' @ err))
      | None \<Rightarrow> Returned t)"

text \<open>
  \<^verbatim>\<open>defer testcontainers.TerminateContainer(c)\<close> in \<^verbatim>\<open>TestCacheAsidePattern\<close>
  and \<^verbatim>\<open>TestDistributedCounter\<close>: the result of a deferred call is dropped.
\<close>

definition bare_deferred :: "T \<Rightarrow> string option \<Rightarrow> teardown_end" where
  "bare_deferred t terminated = Returned t"

text \<open>
  The end of both \<^verbatim>\<open>TestMain\<close> functions after \<^verbatim>\<open>code := m.Run()\<close>: a
  terminate error is passed to \<^verbatim>\<open>panic\<close>, otherwise \<^verbatim>\<open>os.Exit(code)\<close>.
\<close>

definition TestMain_teardown :: "int \<Rightarrow> string option \<Rightarrow> process_end" where
  "TestMain_teardown code terminated =
     (case terminated of
        Some err \<Rightarrow> PanicExit err
      | None \<Rightarrow> Exit code)"

text \<open>
  The cleanup closure \<^verbatim>\<open>setupDynamoDB\<close> returns (dynamodb/client_test.go).
\<close>

definition setupDynamoDB_cleanup :: "T \<Rightarrow> string option \<Rightarrow> teardown_end" where
  "setupDynamoDB_cleanup t terminated =
     (case terminated of
        Some err \<Rightarrow> Fatalf t (''failed to terminate container: '' @ err)
      | None \<Rightarrow> Returned t)"

text \<open>
  The deferred closure at the head of each of the five per-test cache tests
  (redis/client_test.go).
\<close>

definition redis_test_deferred :: "T \<Rightarrow> string option \<Rightarrow> teardown_end" where
  "redis_test_deferred t terminated =
     (case terminated of
        Some err \<Rightarrow> Fatalf t (''failed to terminate container: '' @ err)
      | None \<Rightarrow> Returned t)"

text \<open>
  \<^verbatim>\<open>TestMain\<close> of the document-store package, whole. Its inputs are the results
  of the external calls it makes: the error, if any, of \<^verbatim>\<open>localstack.Run\<close>,
  \<^verbatim>\<open>NewDockerProvider\<close>, \<^verbatim>\<open>DaemonHost\<close>, \<^verbatim>\<open>MappedPort\<close> and
  \<^verbatim>\<open>LoadDefaultConfig\<close>, the code \<^verbatim>\<open>m.Run()\<close> returns, and the result of
  \<^verbatim>\<open>TerminateContainer\<close>, which every path calls at most once. The first two
  failures panic before any teardown. The next three call
  \<^verbatim>\<open>_ = testcontainers.TerminateContainer(...)\<close>, which drops the result, and
  panic with the setup error. After the tests the terminate error is passed to
  \<^verbatim>\<open>panic\<close>.
\<close>

record localstack_setup =
  run_failed :: "string option"
  provider_failed :: "string option"
  host_failed :: "string option"
  port_failed :: "string option"
  config_failed :: "string option"

definition dynamodb_TestMain :: "localstack_setup \<Rightarrow> int \<Rightarrow> string option \<Rightarrow> process_end" where
  "dynamodb_TestMain s code terminated =
     (case run_failed s of
        Some err \<Rightarrow> PanicExit err
      | None \<Rightarrow>
     (case provider_failed s of
        Some err \<Rightarrow> PanicExit err
      | None \<Rightarrow>
     (case host_failed s of
        Some err \<Rightarrow> (let dropped = terminated in PanicExit err)
      | None \<Rightarrow>
     (case port_failed s of
        Some err \<Rightarrow> (let dropped = terminated in PanicExit err)
      | None \<Rightarrow>
     (case config_failed s of
        Some err \<Rightarrow> (let dropped = terminated in PanicExit err)
      | None \<Rightarrow> TestMain_teardown code terminated)))))"

text \<open>
  \<^verbatim>\<open>TestMain\<close> of the cache package, whole: the error, if any, of
  \<^verbatim>\<open>redis.Run\<close>, \<^verbatim>\<open>Endpoint\<close> and \<^verbatim>\<open>Ping\<close>. A failed run panics before
  any teardown; a failed endpoint or ping drops the terminate result and panics with
  the setup error (the ping's behind the text \<^verbatim>\<open>failed to ping redis: \<close>); the
  end is that of the other \<^verbatim>\<open>TestMain\<close>.
\<close>

record redis_setup =
  redis_run_failed :: "string option"
  endpoint_failed :: "string option"
  ping_failed :: "string option"

definition redis_TestMain :: "redis_setup \<Rightarrow> int \<Rightarrow> string option \<Rightarrow> process_end" where
  "redis_TestMain s code terminated =
     (case redis_run_failed s of
        Some err \<Rightarrow> PanicExit err
      | None \<Rightarrow>
     (case endpoint_failed s of
        Some err \<Rightarrow> (let dropped = terminated in PanicExit err)
      | None \<Rightarrow>
     (case ping_failed s of
        Some err \<Rightarrow> (let dropped = terminated in PanicExit (''failed to ping redis: '' @ err))
      | None \<Rightarrow> TestMain_teardown code terminated)))"

definition setup_ok :: localstack_setup where
  "setup_ok = \<lparr>run_failed = None, provider_failed = None, host_failed = None,
               port_failed = None, config_failed = None\<rparr>"

definition redis_setup_ok :: redis_setup where
  "redis_setup_ok = \<lparr>redis_run_failed = None, endpoint_failed = None, ping_failed = None\<rparr>"

section \<open>Properties of the relational client\<close>

subsection \<open>Evaluation and the driver's calls\<close>

lemmas pg_eval =
  ExecuteInTransaction_def BeginTransaction_def BeginTxx_def Commit_def Rollback_def
  called_def keep_seqs_def connect_def failing_def users_db_def john_def jane_def
  bob_def another_def carol_def two_inserts_def Tx_ExecContext_def ExecContext_def
  run_stmt_def insert_row_def update_rows_def update_row_def delete_rows_def
  select_rows_def no_rows_def outcome_Result_def Let_def

lemma BeginTransaction_ok:
  "BeginTransaction c = (Inr tx, c1) \<Longrightarrow>
     tx = \<lparr>tx_db = db c, tx_failed = False\<rparr> \<and> db c1 = db c \<and>
     faults c1 = faults c \<and> trace c1 = trace c @ [CallBegin]"
  by (auto simp: BeginTransaction_def BeginTxx_def called_def split: option.splits)

lemma BeginTransaction_failing_rollback:
  "BeginTransaction c = (Inr tx, c1) \<Longrightarrow>
     BeginTransaction (failing CallRollback e c) = (Inr tx, failing CallRollback e c1)"
  by (auto simp: BeginTransaction_def BeginTxx_def called_def failing_def split: option.splits)

lemma Rollback_tables: "tables (db (snd (Rollback c tx))) = tables (db c)"
  by (simp add: Rollback_def called_def keep_seqs_def split: option.splits)

lemma Rollback_trace: "trace (snd (Rollback c tx)) = trace c @ [CallRollback]"
  by (simp add: Rollback_def called_def keep_seqs_def split: option.splits)

lemma Commit_tables:
  "tables (db (snd (Commit c tx))) =
     (if fst (Commit c tx) = None then tables (tx_db tx) else tables (db c))"
  by (simp add: Commit_def called_def keep_seqs_def split: option.splits)

lemma ExecuteInTransaction_work_ok:
  "BeginTransaction c = (Inr tx, c1) \<Longrightarrow> fn tx = (Return None, tx1) \<Longrightarrow>
     ExecuteInTransaction c fn = (Return (fst (Commit c1 tx1)), snd (Commit c1 tx1))"
  by (simp add: ExecuteInTransaction_def split: prod.splits)

lemma ExecuteInTransaction_work_failed:
  "BeginTransaction c = (Inr tx, c1) \<Longrightarrow> fn tx = (w, tx1) \<Longrightarrow> w \<noteq> Return None \<Longrightarrow>
     ExecuteInTransaction c fn = (w, snd (Rollback c1 tx1))"
  by (cases w) (auto simp: ExecuteInTransaction_def split: prod.splits option.splits)

lemma users_db_reached:
  "ExecuteInTransaction (snd (CreateTable (connect empty_db) ''users''))
     (two_inserts ''users'' (''John Doe'', ''john@example.com'')
        (''Jane Doe'', ''jane@example.com'')) =
   (Return None, \<lparr>db = users_db, faults = (\<lambda>k. None), trace = [CallBegin, CallCommit]\<rparr>)"
  by (simp add: CreateTable_def empty_db_def pg_eval)

lemma filter_id_absent: "i \<notin> set (map ID rs) \<Longrightarrow> filter (\<lambda>u. ID u = i) rs = []"
  by (induction rs) auto

lemma filter_other_absent: "i \<notin> set (map ID rs) \<Longrightarrow> filter (\<lambda>u. ID u \<noteq> i) rs = rs"
  by (induction rs) auto

subsection \<open>Transactions\<close>

text \<open>
  Claim C1, as amended. Once the transaction has begun: when the work function
  returns nil, the client returns the result of the commit, and the tables are those
  the work function left in the transaction if the commit was accepted and the
  tables from before the call if it was refused, never a part of the work; when the
  work function returns an error, that error is returned and the tables are those
  from before the call, so none of its statements is persisted.
\<close>

theorem ExecuteInTransaction_commit_or_rollback:
  assumes "BeginTransaction c = (Inr tx, c1)" and "fn tx = (Return r, tx1)"
  shows "(case r of
            None \<Rightarrow>
              fst (ExecuteInTransaction c fn) = Return (fst (Commit c1 tx1)) \<and>
              tables (db (snd (ExecuteInTransaction c fn))) =
                (if fst (ExecuteInTransaction c fn) = Return None
                 then tables (tx_db tx1) else tables (db c))
          | Some e \<Rightarrow>
              fst (ExecuteInTransaction c fn) = Return (Some e) \<and>
              tables (db (snd (ExecuteInTransaction c fn))) = tables (db c))"
proof (cases r)
  case None
  have "ExecuteInTransaction c fn = (Return (fst (Commit c1 tx1)), snd (Commit c1 tx1))"
    using assms None by (simp add: ExecuteInTransaction_work_ok)
  moreover have "db c1 = db c"
    using BeginTransaction_ok [OF assms(1)] by simp
  ultimately show ?thesis
    using None Commit_tables [of c1 tx1] by simp
next
  case (Some e)
  have "ExecuteInTransaction c fn = (Return (Some e), snd (Rollback c1 tx1))"
    using assms Some by (simp add: ExecuteInTransaction_work_failed)
  moreover have "db c1 = db c"
    using BeginTransaction_ok [OF assms(1)] by simp
  ultimately show ?thesis
    using Some Rollback_tables [of c1 tx1] by simp
qed

text \<open>
  The theorem at the two transactions of \<^verbatim>\<open>TestPostgreSQLTransaction\<close>'s shape,
  on a table holding John and Jane: Bob followed by John's address again is refused
  and leaves the two rows; Bob followed by Carol is committed and leaves four.
\<close>

theorem ExecuteInTransaction_commit_or_rollback_witness:
  "fst (ExecuteInTransaction (connect users_db) (two_inserts ''users'' bob another)) =
     Return (Some (UniqueViolation ''users_email_key'')) \<and>
   tables (db (snd (ExecuteInTransaction (connect users_db)
     (two_inserts ''users'' bob another)))) ''users'' = Some [john, jane] \<and>
   fst (ExecuteInTransaction (connect users_db) (two_inserts ''users'' bob carol)) =
     Return None \<and>
   map Name (the (tables (db (snd (ExecuteInTransaction (connect users_db)
     (two_inserts ''users'' bob carol)))) ''users'')) =
     [''John Doe'', ''Jane Doe'', ''Bob Johnson'', ''Carol King'']"
proof -
  let ?tx = "\<lparr>tx_db = users_db, tx_failed = False\<rparr>"
  let ?c1 = "called CallBegin (connect users_db)"
  have b: "BeginTransaction (connect users_db) = (Inr ?tx, ?c1)"
    by (simp add: BeginTransaction_def BeginTxx_def connect_def)
  have w1: "two_inserts ''users'' bob another ?tx =
      (Return (Some (UniqueViolation ''users_email_key'')),
       snd (two_inserts ''users'' bob another ?tx))"
    by (simp add: pg_eval)
  have w2: "two_inserts ''users'' bob carol ?tx =
      (Return None, snd (two_inserts ''users'' bob carol ?tx))"
    by (simp add: pg_eval)
  show ?thesis
    using ExecuteInTransaction_commit_or_rollback
        [where fn = "two_inserts ''users'' bob another", OF b w1]
      ExecuteInTransaction_commit_or_rollback
        [where fn = "two_inserts ''users'' bob carol", OF b w2]
    by (simp add: pg_eval)
qed

text \<open>
  Claim C1 as it was stated fails where the commit is refused: the work function
  inserts Bob and Carol and returns nil, the driver answers the commit with an
  error, the client returns that error and the table still holds John and Jane only.
\<close>

theorem ExecuteInTransaction_commit_refused:
  "fst (two_inserts ''users'' bob carol
          \<lparr>tx_db = users_db, tx_failed = False\<rparr>) = Return None \<and>
   fst (ExecuteInTransaction
          (failing CallCommit (DriverFault ''connection lost'') (connect users_db))
          (two_inserts ''users'' bob carol)) =
     Return (Some (DriverFault ''connection lost'')) \<and>
   tables (db (snd (ExecuteInTransaction
          (failing CallCommit (DriverFault ''connection lost'') (connect users_db))
          (two_inserts ''users'' bob carol)))) ''users'' = Some [john, jane]"
  by (simp add: pg_eval)

text \<open>
  Claim C2, as amended. Once the transaction has begun, a work function that fails
  (returns an error or panics) has its failure handed to the caller unchanged; the
  driver has then received exactly a begin and a rollback; and the outcome is the
  same whatever error the driver answers the rollback with, since the source drops
  the rollback's result.
\<close>

theorem ExecuteInTransaction_reraises_work_failure:
  assumes "BeginTransaction c = (Inr tx, c1)" and "fn tx = (w, tx1)" and "w \<noteq> Return None"
  shows "fst (ExecuteInTransaction c fn) = w \<and>
         trace (snd (ExecuteInTransaction c fn)) = trace c @ [CallBegin, CallRollback] \<and>
         fst (ExecuteInTransaction (failing CallRollback e' c) fn) = w"
proof -
  have run: "ExecuteInTransaction c fn = (w, snd (Rollback c1 tx1))"
    using assms by (rule ExecuteInTransaction_work_failed)
  have "BeginTransaction (failing CallRollback e' c) = (Inr tx, failing CallRollback e' c1)"
    using assms(1) by (rule BeginTransaction_failing_rollback)
  then have run': "ExecuteInTransaction (failing CallRollback e' c) fn =
      (w, snd (Rollback (failing CallRollback e' c1) tx1))"
    using assms(2,3) by (rule ExecuteInTransaction_work_failed)
  have "trace c1 = trace c @ [CallBegin]"
    using BeginTransaction_ok [OF assms(1)] by simp
  then show ?thesis
    using run run' Rollback_trace [of c1 tx1] by simp
qed

theorem ExecuteInTransaction_reraises_work_failure_witness:
  "fst (ExecuteInTransaction (connect users_db) (two_inserts ''users'' bob another)) =
     Return (Some (UniqueViolation ''users_email_key'')) \<and>
   trace (snd (ExecuteInTransaction (connect users_db) (two_inserts ''users'' bob another))) =
     [CallBegin, CallRollback] \<and>
   fst (ExecuteInTransaction (failing CallRollback (DriverFault ''connection lost'') (connect users_db))
          (two_inserts ''users'' bob another)) =
     Return (Some (UniqueViolation ''users_email_key''))"
proof -
  let ?tx = "\<lparr>tx_db = users_db, tx_failed = False\<rparr>"
  let ?c1 = "called CallBegin (connect users_db)"
  have b: "BeginTransaction (connect users_db) = (Inr ?tx, ?c1)"
    by (simp add: BeginTransaction_def BeginTxx_def connect_def)
  have w: "two_inserts ''users'' bob another ?tx =
      (Return (Some (UniqueViolation ''users_email_key'')),
       snd (two_inserts ''users'' bob another ?tx))"
    by (simp add: pg_eval)
  have n: "Return (Some (UniqueViolation ''users_email_key'')) \<noteq> Return None"
    by simp
  show ?thesis
    using ExecuteInTransaction_reraises_work_failure
        [where fn = "two_inserts ''users'' bob another" and e' = "DriverFault ''connection lost''", OF b w n]
    by (simp add: connect_def)
qed

text \<open>
  Claim C2 as it was stated fails where the rollback fails: the driver answers the
  rollback with an error, and the caller receives the work function's error alone,
  the very outcome of the same call on a driver whose rollback goes through.
\<close>

theorem ExecuteInTransaction_rollback_error_dropped:
  "fst (Rollback
          (failing CallRollback (DriverFault ''connection lost'') (connect users_db))
          \<lparr>tx_db = users_db, tx_failed = True\<rparr>) =
     Some (DriverFault ''connection lost'') \<and>
   fst (ExecuteInTransaction
          (failing CallRollback (DriverFault ''connection lost'') (connect users_db))
          (two_inserts ''users'' bob another)) =
     Return (Some (UniqueViolation ''users_email_key'')) \<and>
   fst (ExecuteInTransaction (connect users_db) (two_inserts ''users'' bob another)) =
     Return (Some (UniqueViolation ''users_email_key''))"
  by (simp add: pg_eval)

subsection \<open>Rows that are not there\<close>

lemma UpdateUser_absent:
  "tables (db c) t = Some rs \<Longrightarrow> i \<notin> set (map ID rs) \<Longrightarrow>
     UpdateUser c t i n e = (Some (UserNotFound i), c)"
  by (simp add: UpdateUser_def ExecContext_def run_stmt_def update_rows_def filter_id_absent
      no_rows_def outcome_Result_def Let_def)

lemma DeleteUser_absent:
  "tables (db c) t = Some rs \<Longrightarrow> i \<notin> set (map ID rs) \<Longrightarrow>
     DeleteUser c t i = (Some (UserNotFound i), c)"
  by (simp add: DeleteUser_def ExecContext_def run_stmt_def delete_rows_def filter_id_absent
      filter_other_absent outcome_Result_def Let_def map_upd_triv)

lemma UpdateUser_fails_iff:
  "(fst (UpdateUser c t i n e) \<noteq> None) =
     (rows_affected (db c) (UpdateNameEmailById t) [ArgStr n, ArgStr e, ArgInt i] = 0)"
  by (auto simp: UpdateUser_def ExecContext_def rows_affected_def outcome_Result_def Let_def
      split: prod.splits sum.splits)

lemma DeleteUser_fails_iff:
  "(fst (DeleteUser c t i) \<noteq> None) = (rows_affected (db c) (DeleteById t) [ArgInt i] = 0)"
  by (auto simp: DeleteUser_def ExecContext_def rows_affected_def outcome_Result_def Let_def
      split: prod.splits sum.splits)

lemma rows_affected_delete:
  "tables d t = Some rs \<Longrightarrow>
     rows_affected d (DeleteById t) [ArgInt i] = int (length (filter (\<lambda>u. ID u = i) rs))"
  by (simp add: rows_affected_def run_stmt_def delete_rows_def Let_def)

lemma rows_affected_update:
  "tables d t = Some rs \<Longrightarrow>
     rows_affected d (UpdateNameEmailById t) [ArgStr n, ArgStr e, ArgInt i] =
       (if distinct (map Email (map (update_row n e i) rs))
        then int (length (filter (\<lambda>u. ID u = i) rs)) else 0)"
  by (simp add: rows_affected_def run_stmt_def update_rows_def no_rows_def Let_def)

text \<open>
  Claim C5. In a table that exists, for an id that no row carries,
  \<^verbatim>\<open>UpdateUser\<close> and \<^verbatim>\<open>DeleteUser\<close> fail with the not-found error (and leave
  the client's state as it was). Each of them reports a failure exactly when its
  statement affected no row, and so succeeds when it affected one.
\<close>

theorem UpdateUser_DeleteUser_not_found:
  "(tables (db c) t = Some rs \<and> i \<notin> set (map ID rs) \<longrightarrow>
      UpdateUser c t i n e = (Some (UserNotFound i), c) \<and>
      DeleteUser c t i = (Some (UserNotFound i), c)) \<and>
   (fst (UpdateUser c t i n e) \<noteq> None) =
      (rows_affected (db c) (UpdateNameEmailById t) [ArgStr n, ArgStr e, ArgInt i] = 0) \<and>
   (fst (DeleteUser c t i) \<noteq> None) =
      (rows_affected (db c) (DeleteById t) [ArgInt i] = 0)"
proof -
  have "tables (db c) t = Some rs \<and> i \<notin> set (map ID rs) \<longrightarrow>
      UpdateUser c t i n e = (Some (UserNotFound i), c) \<and>
      DeleteUser c t i = (Some (UserNotFound i), c)"
    by (simp add: UpdateUser_absent DeleteUser_absent)
  then show ?thesis
    using UpdateUser_fails_iff [of c t i n e] DeleteUser_fails_iff [of c t i] by simp
qed

text \<open>
  The theorem on the table holding John (id 1) and Jane (id 2): id 7 is not found by
  either method and no row is affected; deleting id 2 affects one row and succeeds.
\<close>

theorem UpdateUser_DeleteUser_not_found_witness:
  "UpdateUser (connect users_db) ''users'' 7 ''Nobody'' ''nobody@example.com'' =
     (Some (UserNotFound 7), connect users_db) \<and>
   DeleteUser (connect users_db) ''users'' 7 = (Some (UserNotFound 7), connect users_db) \<and>
   rows_affected users_db (DeleteById ''users'') [ArgInt 7] = 0 \<and>
   rows_affected users_db (DeleteById ''users'') [ArgInt 2] = 1 \<and>
   fst (DeleteUser (connect users_db) ''users'' 2) = None"
proof -
  have t: "tables (db (connect users_db)) ''users'' = Some [john, jane]"
    by (simp add: connect_def users_db_def)
  have a: "(7::int) \<notin> set (map ID [john, jane])"
    by (simp add: john_def jane_def)
  have r7: "rows_affected users_db (DeleteById ''users'') [ArgInt 7] = 0"
    by (simp add: rows_affected_def pg_eval)
  have r2: "rows_affected users_db (DeleteById ''users'') [ArgInt 2] = 1"
    by (simp add: rows_affected_def pg_eval)
  have d: "db (connect users_db) = users_db"
    by (simp add: connect_def)
  show ?thesis
    using UpdateUser_DeleteUser_not_found
        [of "connect users_db" "''users''" "[john, jane]" 7 "''Nobody''" "''nobody@example.com''"]
      UpdateUser_DeleteUser_not_found
        [of "connect users_db" "''users''" "[john, jane]" 2 "''Nobody''" "''nobody@example.com''"]
      t a r7 r2 d
    by simp
qed

subsection \<open>What an update leaves alone\<close>

lemma update_row_frame:
  "ID (update_row n e i u) = ID u \<and> CreatedAt (update_row n e i u) = CreatedAt u \<and>
   (ID u \<noteq> i \<longrightarrow> update_row n e i u = u) \<and>
   (ID u = i \<longrightarrow> Name (update_row n e i u) = n \<and> Email (update_row n e i u) = e)"
  by (simp add: update_row_def)

lemma UpdateUser_state:
  "tables (db c) t = Some rs \<Longrightarrow>
   snd (UpdateUser c t i n e) =
     (if fst (UpdateUser c t i n e) = None
      then c\<lparr>db := (db c)\<lparr>tables := (tables (db c))(t \<mapsto> map (update_row n e i) rs)\<rparr>\<rparr>
      else c)"
  by (simp add: UpdateUser_def ExecContext_def run_stmt_def update_rows_def
      no_rows_def outcome_Result_def Let_def)

lemma UpdateUser_rows:
  assumes "tables (db c) t = Some rs"
  shows "tables (db (snd (UpdateUser c t i n e))) t =
           Some (if fst (UpdateUser c t i n e) = None then map (update_row n e i) rs else rs)"
  using assms by (simp add: UpdateUser_state)

lemma UpdateUser_other_tables:
  assumes "tables (db c) t = Some rs" and "t' \<noteq> t"
  shows "tables (db (snd (UpdateUser c t i n e))) t' = tables (db c) t'"
  using assms by (simp add: UpdateUser_state)

text \<open>
  Claim C10. For a table that exists, \<^verbatim>\<open>UpdateUser\<close> leaves the table with as
  many rows as before, each in its place with its id and created-at unchanged; every
  row whose id differs from the given one is unchanged; when it succeeds, the rows
  carrying the given id have the new name and email; every other table is
  unchanged; and when it fails with the not-found error the client's whole state is
  unchanged.
\<close>

theorem UpdateUser_frame:
  assumes "tables (db c) t = Some rs"
  shows "\<exists>rs'. tables (db (snd (UpdateUser c t i n e))) t = Some rs' \<and>
           length rs' = length rs \<and>
           (\<forall>k<length rs.
              ID (rs' ! k) = ID (rs ! k) \<and> CreatedAt (rs' ! k) = CreatedAt (rs ! k) \<and>
              (ID (rs ! k) \<noteq> i \<longrightarrow> rs' ! k = rs ! k) \<and>
              (ID (rs ! k) = i \<and> fst (UpdateUser c t i n e) = None \<longrightarrow>
                 Name (rs' ! k) = n \<and> Email (rs' ! k) = e)) \<and>
           (\<forall>t'. t' \<noteq> t \<longrightarrow>
              tables (db (snd (UpdateUser c t i n e))) t' = tables (db c) t') \<and>
           (fst (UpdateUser c t i n e) = Some (UserNotFound i) \<longrightarrow>
              snd (UpdateUser c t i n e) = c)"
proof -
  let ?rs' = "if fst (UpdateUser c t i n e) = None then map (update_row n e i) rs else rs"
  have rows: "tables (db (snd (UpdateUser c t i n e))) t = Some ?rs'"
    using assms by (rule UpdateUser_rows)
  have len: "length ?rs' = length rs"
    by simp
  have each: "\<forall>k<length rs.
      ID (?rs' ! k) = ID (rs ! k) \<and> CreatedAt (?rs' ! k) = CreatedAt (rs ! k) \<and>
      (ID (rs ! k) \<noteq> i \<longrightarrow> ?rs' ! k = rs ! k) \<and>
      (ID (rs ! k) = i \<and> fst (UpdateUser c t i n e) = None \<longrightarrow>
         Name (?rs' ! k) = n \<and> Email (?rs' ! k) = e)"
    using update_row_frame by simp
  have others: "\<forall>t'. t' \<noteq> t \<longrightarrow>
      tables (db (snd (UpdateUser c t i n e))) t' = tables (db c) t'"
    using assms by (simp add: UpdateUser_other_tables)
  have nf: "fst (UpdateUser c t i n e) = Some (UserNotFound i) \<longrightarrow>
      snd (UpdateUser c t i n e) = c"
    using assms by (simp add: UpdateUser_state)
  show ?thesis
    using rows len each others nf by blast
qed

text \<open>
  The theorem on the table holding John and Jane, at the update of
  \<^verbatim>\<open>TestPostgreSQLUpdate\<close>: John's row takes the new name and email and keeps
  id and created-at, Jane's row is as it was; updating id 7 changes nothing.
\<close>

theorem UpdateUser_frame_witness:
  "tables (db (snd (UpdateUser (connect users_db) ''users'' 1
      ''John Updated'' ''john.updated@example.com''))) ''users'' =
     Some [john\<lparr>Name := ''John Updated'', Email := ''john.updated@example.com''\<rparr>, jane] \<and>
   snd (UpdateUser (connect users_db) ''users'' 7 ''Nobody'' ''nobody@example.com'') =
     connect users_db"
proof -
  have t: "tables (db (connect users_db)) ''users'' = Some [john, jane]"
    by (simp add: connect_def users_db_def)
  have ok: "UpdateUser (connect users_db) ''users'' 1
      ''John Updated'' ''john.updated@example.com'' =
      (None, (connect users_db)\<lparr>db := users_db\<lparr>tables := [''users'' \<mapsto>
         [john\<lparr>Name := ''John Updated'', Email := ''john.updated@example.com''\<rparr>, jane]]\<rparr>\<rparr>)"
    by (simp add: UpdateUser_def pg_eval)
  have nf: "fst (UpdateUser (connect users_db) ''users'' 7 ''Nobody'' ''nobody@example.com'') =
      Some (UserNotFound 7)"
    by (simp add: UpdateUser_def pg_eval)
  have "snd (UpdateUser (connect users_db) ''users'' 7 ''Nobody'' ''nobody@example.com'') =
      connect users_db"
    using UpdateUser_frame [OF t, of 7 "''Nobody''" "''nobody@example.com''"] nf
    by blast
  then show ?thesis
    using ok by simp
qed

section \<open>Properties of the cache client\<close>

lemma del_keys_keyspace:
  "keyspace (snd (del_keys ks r)) = (\<lambda>k. if k \<in> set ks then None else keyspace r k)"
  by (induction ks arbitrary: r) (auto simp: Let_def case_prod_beta fun_eq_iff)

lemma del_keys_clock: "clock (snd (del_keys ks r)) = clock r"
  by (induction ks arbitrary: r) (auto simp: Let_def case_prod_beta)

lemma del_keys_twice: "snd (del_keys ks (snd (del_keys ks r))) = snd (del_keys ks r)"
  by (rule rdb.equality) (auto simp: del_keys_keyspace del_keys_clock fun_eq_iff)

lemma Delete_twice: "Delete (snd (Delete r ks)) ks = Delete r ks"
  using del_keys_twice [of ks r] by (simp add: Delete_def cmd_del_def case_prod_beta)

lemma Delete_ok: "ks \<noteq> [] \<Longrightarrow> fst (Delete r ks) = None"
  by (simp add: Delete_def cmd_del_def case_prod_beta)

lemma Delete_absent_live:
  "live r k = None \<Longrightarrow> live (snd (Delete r [k])) k' = live r k'"
  by (auto simp: Delete_def cmd_del_def live_def Let_def split: option.splits)

lemma list_at_store: "list_at (store_list r k xs) k = Inr xs"
  by (auto simp: list_at_def store_list_def live_def split: option.splits)

lemma lrange_all: "lrange xs 0 (-1) = xs"
  by (cases xs) (simp_all add: lrange_def Let_def)

lemma lrange_from: "0 \<le> i \<Longrightarrow> lrange xs i (-1) = drop (nat i) xs"
  by (auto simp: lrange_def Let_def)

lemma lrange_inclusive:
  assumes "0 \<le> i" and "i \<le> j" and "j < int (length xs)"
  shows "lrange xs i j = map (\<lambda>n. xs ! n) [nat i ..< Suc (nat j)]"
proof -
  have "lrange xs i j = take (nat (j - i + 1)) (drop (nat i) xs)"
    using assms by (simp add: lrange_def Let_def)
  also have "\<dots> = map (\<lambda>n. xs ! n) [nat i ..< Suc (nat j)]"
  proof (rule nth_equalityI)
    show "length (take (nat (j - i + 1)) (drop (nat i) xs)) =
          length (map (\<lambda>n. xs ! n) [nat i ..< Suc (nat j)])"
      using assms by (simp del: upt_Suc)
  next
    fix k
    assume "k < length (take (nat (j - i + 1)) (drop (nat i) xs))"
    then show "take (nat (j - i + 1)) (drop (nat i) xs) ! k =
               map (\<lambda>n. xs ! n) [nat i ..< Suc (nat j)] ! k"
      using assms by (simp del: upt_Suc)
  qed
  finally show ?thesis .
qed

lemma RPush_list:
  "list_at r k = Inr xs \<Longrightarrow> list_at (snd (RPush r k vs)) k = Inr (xs @ vs)"
  by (cases "vs = []") (simp_all add: RPush_def cmd_rpush_def list_at_store)

lemma LPush_list:
  "list_at r k = Inr xs \<Longrightarrow> list_at (snd (LPush r k vs)) k = Inr (rev vs @ xs)"
  by (cases "vs = []") (simp_all add: LPush_def cmd_lpush_def list_at_store)

lemma LRange_list: "list_at r k = Inr xs \<Longrightarrow> LRange r k i j = Inr (lrange xs i j)"
  by (simp add: LRange_def cmd_lrange_def)

lemma list_at_absent: "live r k = None \<Longrightarrow> list_at r k = Inr []"
  by (simp add: list_at_def)

text \<open>
  Claim C7 (the cache's part and the relational part together). Deleting a key that
  is absent succeeds and leaves every key as it was; dropping a table that is absent
  succeeds and leaves the client's state as it was; creating a table that exists
  succeeds and leaves the state, the table's rows included, as it was; and each of
  the three, performed a second time, gives the result and the state of the first.
\<close>

theorem removal_and_creation_idempotent:
  "(live r k = None \<longrightarrow>
      fst (Delete r [k]) = None \<and> (\<forall>k'. live (snd (Delete r [k])) k' = live r k')) \<and>
   Delete (snd (Delete r ks)) ks = Delete r ks \<and>
   (tables (db c) t = None \<longrightarrow> DropTable c t = (None, c)) \<and>
   fst (DropTable c t) = None \<and>
   DropTable (snd (DropTable c t)) t = DropTable c t \<and>
   (tables (db c) t = Some rs \<longrightarrow> CreateTable c t = (None, c)) \<and>
   fst (CreateTable c t) = None \<and>
   CreateTable (snd (CreateTable c t)) t = CreateTable c t"
proof -
  have del: "live r k = None \<longrightarrow>
      fst (Delete r [k]) = None \<and> (\<forall>k'. live (snd (Delete r [k])) k' = live r k')"
    by (simp add: Delete_ok Delete_absent_live)
  have drop_absent: "tables (db c) t = None \<longrightarrow> DropTable c t = (None, c)"
    by (simp add: DropTable_def ExecContext_def run_stmt_def no_rows_def Let_def)
  have drop_ok: "fst (DropTable c t) = None"
    by (cases "tables (db c) t") (simp_all add: DropTable_def ExecContext_def run_stmt_def Let_def)
  have drop_twice: "DropTable (snd (DropTable c t)) t = DropTable c t"
    by (cases "tables (db c) t") (simp_all add: DropTable_def ExecContext_def run_stmt_def Let_def)
  have create_present: "tables (db c) t = Some rs \<longrightarrow> CreateTable c t = (None, c)"
    by (simp add: CreateTable_def ExecContext_def run_stmt_def Let_def)
  have create_ok: "fst (CreateTable c t) = None"
    by (cases "tables (db c) t")
       (simp_all add: CreateTable_def ExecContext_def run_stmt_def Let_def)
  have create_twice: "CreateTable (snd (CreateTable c t)) t = CreateTable c t"
    by (cases "tables (db c) t")
       (simp_all add: CreateTable_def ExecContext_def run_stmt_def Let_def)
  show ?thesis
    using del Delete_twice [of r ks] drop_absent drop_ok drop_twice
      create_present create_ok create_twice
    by simp
qed

text \<open>
  The theorem on an empty cache and on the database holding table users: deleting
  the absent key test-key succeeds and changes nothing, dropping the absent table
  orders changes nothing, creating users again keeps John and Jane.
\<close>

theorem removal_and_creation_idempotent_witness:
  "Delete fresh_rdb [''test-key''] = (None, fresh_rdb) \<and>
   DropTable (connect users_db) ''orders'' = (None, connect users_db) \<and>
   CreateTable (connect users_db) ''users'' = (None, connect users_db) \<and>
   tables (db (snd (CreateTable (connect users_db) ''users''))) ''users'' = Some [john, jane]"
proof -
  have l: "live fresh_rdb ''test-key'' = None"
    by (simp add: live_def fresh_rdb_def)
  have d: "Delete fresh_rdb [''test-key''] = (None, fresh_rdb)"
    by (simp add: Delete_def cmd_del_def fresh_rdb_def live_def)
  have o: "tables (db (connect users_db)) ''orders'' = None"
    by (simp add: connect_def users_db_def)
  have u: "tables (db (connect users_db)) ''users'' = Some [john, jane]"
    by (simp add: connect_def users_db_def)
  show ?thesis
    using removal_and_creation_idempotent
        [of fresh_rdb "''test-key''" "[''test-key'']" "connect users_db" "''orders''" "[]"]
      removal_and_creation_idempotent
        [of fresh_rdb "''test-key''" "[''test-key'']" "connect users_db" "''users''" "[john, jane]"]
      l d o u
    by simp
qed

text \<open>
  Claim C8. For a key set with a positive time to live \<^verbatim>\<open>t\<close>: the set succeeds,
  a get at once, or at any time before \<^verbatim>\<open>t\<close> has passed, returns the value,
  and a get after more than \<^verbatim>\<open>t\<close> has passed
  fails with the very error that a get of a key never set fails with (the vendor
  client's \<^verbatim>\<open>redis.Nil\<close>).
\<close>

theorem Get_after_Set_with_ttl:
  assumes "0 < t"
  shows "fst (Set r k v t) = None \<and>
         Get (snd (Set r k v t)) k = Inr v \<and>
         (\<forall>d. d < nat t \<longrightarrow> Get (sleep d (snd (Set r k v t))) k = Inr v) \<and>
         (\<forall>d r' k'. nat t < d \<and> keyspace r' k' = None \<longrightarrow>
            Get (sleep d (snd (Set r k v t))) k = Inl RedisNil \<and>
            Get r' k' = Inl RedisNil)"
proof -
  have ok: "fst (Set r k v t) = None"
    by (simp add: Set_def cmd_set_def Let_def)
  have now: "Get (snd (Set r k v t)) k = Inr v"
    using assms by (simp add: Get_def Set_def cmd_set_def cmd_get_def live_def)
  have before: "d < nat t \<Longrightarrow> Get (sleep d (snd (Set r k v t))) k = Inr v" for d
    using assms by (simp add: Get_def Set_def cmd_set_def cmd_get_def live_def sleep_def)
  have later: "nat t < d \<Longrightarrow> Get (sleep d (snd (Set r k v t))) k = Inl RedisNil" for d
    using assms by (simp add: Get_def Set_def cmd_set_def cmd_get_def live_def sleep_def)
  have never: "keyspace r' k' = None \<Longrightarrow> Get r' k' = Inl RedisNil" for r' k'
    by (simp add: Get_def cmd_get_def live_def)
  show ?thesis
    using ok now before later never by simp
qed

text \<open>
  The theorem at \<^verbatim>\<open>TestRedisExpiration\<close>: expiring-key set for one second (a
  thousand units of the clock) is read back at once and is gone after two seconds,
  as a key never set is.
\<close>

theorem Get_after_Set_with_ttl_witness:
  "Get (snd (Set fresh_rdb ''expiring-key'' ''value'' 1000)) ''expiring-key'' =
     Inr ''value'' \<and>
   Get (sleep 2000 (snd (Set fresh_rdb ''expiring-key'' ''value'' 1000))) ''expiring-key'' =
     Inl RedisNil \<and>
   Get fresh_rdb ''never-set'' = Inl RedisNil"
proof -
  have p: "(0::int) < 1000"
    by simp
  have n: "keyspace fresh_rdb ''never-set'' = None"
    by (simp add: fresh_rdb_def)
  have d: "nat 1000 < (2000::nat)"
    by simp
  show ?thesis
    using Get_after_Set_with_ttl [OF p, of fresh_rdb "''expiring-key''" "''value''"] n d
    by blast
qed

text \<open>
  Claim C9. On a key that is absent, for every list of values: pushing them to the
  right and reading the range 0 to -1 returns them in push order, pushing them to
  the left returns them reversed, and this also holds when the values are pushed in
  two calls. The range takes both offsets inclusively: for
  \<^verbatim>\<open>0 \<le> i \<le> j < length\<close> it returns the elements at positions \<^verbatim>\<open>i\<close> to
  \<^verbatim>\<open>j\<close>, and with stop -1 it runs to the last element.
\<close>

theorem LRange_after_push:
  assumes "live r k = None"
  shows "LRange (snd (RPush r k vs)) k 0 (-1) = Inr vs \<and>
         LRange (snd (LPush r k vs)) k 0 (-1) = Inr (rev vs) \<and>
         LRange (snd (RPush (snd (RPush r k vs)) k ws)) k 0 (-1) = Inr (vs @ ws) \<and>
         LRange (snd (LPush (snd (LPush r k vs)) k ws)) k 0 (-1) = Inr (rev (vs @ ws)) \<and>
         (\<forall>i j. 0 \<le> i \<and> i \<le> j \<and> j < int (length vs) \<longrightarrow>
            LRange (snd (RPush r k vs)) k i j = Inr (map (\<lambda>n. vs ! n) [nat i ..< Suc (nat j)])) \<and>
         (\<forall>i. 0 \<le> i \<longrightarrow> LRange (snd (RPush r k vs)) k i (-1) = Inr (drop (nat i) vs))"
proof -
  have e: "list_at r k = Inr []"
    using assms by (rule list_at_absent)
  have rp: "list_at (snd (RPush r k vs)) k = Inr vs"
    using RPush_list [OF e, of vs] by simp
  have lp: "list_at (snd (LPush r k vs)) k = Inr (rev vs)"
    using LPush_list [OF e, of vs] by simp
  have rp2: "list_at (snd (RPush (snd (RPush r k vs)) k ws)) k = Inr (vs @ ws)"
    using RPush_list [OF rp, of ws] by simp
  have lp2: "list_at (snd (LPush (snd (LPush r k vs)) k ws)) k = Inr (rev (vs @ ws))"
    using LPush_list [OF lp, of ws] by simp
  have incl: "\<forall>i j. 0 \<le> i \<and> i \<le> j \<and> j < int (length vs) \<longrightarrow>
      LRange (snd (RPush r k vs)) k i j = Inr (map (\<lambda>n. vs ! n) [nat i ..< Suc (nat j)])"
    using LRange_list [OF rp] lrange_inclusive [of _ _ vs] by simp
  have last: "\<forall>i. 0 \<le> i \<longrightarrow> LRange (snd (RPush r k vs)) k i (-1) = Inr (drop (nat i) vs)"
    using LRange_list [OF rp] lrange_from [of _ vs] by simp
  show ?thesis
    using LRange_list [OF rp, of 0 "-1"] LRange_list [OF lp, of 0 "-1"]
      LRange_list [OF rp2, of 0 "-1"] LRange_list [OF lp2, of 0 "-1"] incl last
    by (simp add: lrange_all)
qed

text \<open>The theorem at \<^verbatim>\<open>TestRedisList\<close>'s queue and stack.\<close>

theorem LRange_after_push_witness:
  "LRange (snd (RPush fresh_rdb ''queue'' [''item1'', ''item2'', ''item3''])) ''queue'' 0 (-1) =
     Inr [''item1'', ''item2'', ''item3''] \<and>
   LRange (snd (LPush fresh_rdb ''stack'' [''first'', ''second'', ''third''])) ''stack'' 0 (-1) =
     Inr [''third'', ''second'', ''first''] \<and>
   LRange (snd (RPush fresh_rdb ''queue'' [''item1'', ''item2'', ''item3''])) ''queue'' 1 2 =
     Inr [''item2'', ''item3'']"
proof -
  have q: "live fresh_rdb ''queue'' = None"
    by (simp add: live_def fresh_rdb_def)
  have s: "live fresh_rdb ''stack'' = None"
    by (simp add: live_def fresh_rdb_def)
  have m: "map (\<lambda>n. [''item1'', ''item2'', ''item3''] ! n) [nat 1 ..< Suc (nat 2)] =
      [''item2'', ''item3'']"
    by (simp add: upt_rec)
  have b: "0 \<le> (1::int) \<and> (1::int) \<le> 2 \<and> 2 < int (length [''item1'', ''item2'', ''item3''])"
    by simp
  have "LRange (snd (RPush fresh_rdb ''queue'' [''item1'', ''item2'', ''item3''])) ''queue'' 1 2 =
      Inr (map (\<lambda>n. [''item1'', ''item2'', ''item3''] ! n) [nat 1 ..< Suc (nat 2)])"
    using LRange_after_push [OF q, of "[''item1'', ''item2'', ''item3'']" "[]"] b by blast
  then have r12:
    "LRange (snd (RPush fresh_rdb ''queue'' [''item1'', ''item2'', ''item3''])) ''queue'' 1 2 =
      Inr [''item2'', ''item3'']"
    using m by simp
  have s3: "LRange (snd (LPush fresh_rdb ''stack'' [''first'', ''second'', ''third''])) ''stack'' 0 (-1) =
      Inr (rev [''first'', ''second'', ''third''])"
    using LRange_after_push [OF s, of "[''first'', ''second'', ''third'']" "[]"] by blast
  have q3: "LRange (snd (RPush fresh_rdb ''queue'' [''item1'', ''item2'', ''item3''])) ''queue'' 0 (-1) =
      Inr [''item1'', ''item2'', ''item3'']"
    using LRange_after_push [OF q, of "[''item1'', ''item2'', ''item3'']" "[]"] by blast
  show ?thesis
    using q3 s3 r12 by simp
qed

section \<open>Properties of the document-store client\<close>

lemma GetItem_absent:
  "ddb_tables d tn = Some tb \<Longrightarrow> key_id key = Some i \<Longrightarrow> tb i = None \<Longrightarrow>
     GetItem d tn key = Inr None"
  by (simp add: GetItem_def svc_GetItem_def)

lemma GetUser_absent:
  "tables (db c) t = Some rs \<Longrightarrow> j \<notin> set (map ID rs) \<Longrightarrow> GetUser c t j = (Inr None, c)"
  by (simp add: GetUser_def GetContext_def SelectContext_def run_stmt_def select_rows_def
      filter_id_absent Let_def)

text \<open>
  Claim C6. Reading what is absent is not an error: in a document table, for a
  well-formed key under which nothing is stored, \<^verbatim>\<open>GetItem\<close> returns no item
  and no error; in a relational table, for an id that no row carries,
  \<^verbatim>\<open>GetUser\<close> returns the nil record and no error.
\<close>

theorem absent_reads_return_no_error:
  "(ddb_tables d tn = Some tb \<and> key_id key = Some i \<and> tb i = None \<longrightarrow>
      GetItem d tn key = Inr None) \<and>
   (tables (db c) t = Some rs \<and> j \<notin> set (map ID rs) \<longrightarrow> GetUser c t j = (Inr None, c))"
  by (simp add: GetItem_absent GetUser_absent)

text \<open>
  The theorem on the document table holding user-1 only, read at user-2, and on the
  relational table holding ids 1 and 2, read at id 7.
\<close>

theorem absent_reads_return_no_error_witness:
  "GetItem users_update_ddb ''users-update'' [(''id'', AttributeValueMemberS ''user-2'')] =
     Inr None \<and>
   GetUser (connect users_db) ''users'' 7 = (Inr None, connect users_db)"
proof -
  have a: "ddb_tables users_update_ddb ''users-update'' = Some [''user-1'' \<mapsto> user1_item]"
    by (simp add: users_update_ddb_def)
  have b: "key_id [(''id'', AttributeValueMemberS ''user-2'')] = Some ''user-2''"
    by (simp add: key_id_def)
  have c: "[''user-1'' \<mapsto> user1_item] ''user-2'' = None"
    by simp
  have t: "tables (db (connect users_db)) ''users'' = Some [john, jane]"
    by (simp add: connect_def users_db_def)
  have n: "(7::int) \<notin> set (map ID [john, jane])"
    by (simp add: john_def jane_def)
  show ?thesis
    using absent_reads_return_no_error
        [of users_update_ddb "''users-update''" "[''user-1'' \<mapsto> user1_item]"
            "[(''id'', AttributeValueMemberS ''user-2'')]" "''user-2''"
            "connect users_db" "''users''" "[john, jane]" 7]
      a b c t n
    by simp
qed

text \<open>
  Claim C3 does not hold of the source. The request \<^verbatim>\<open>UpdateItem\<close> builds never
  carries expression attribute names, whatever its four arguments. At the input of
  \<^verbatim>\<open>TestDynamoDBUpdateItem\<close> (the expression \<^verbatim>\<open>SET #n = :name\<close>) the alias
  therefore cannot be resolved: the update is refused as a validation error and the
  table is as before, whereas the same request with the test's alias map
  \<^verbatim>\<open>#n\<close> to \<^verbatim>\<open>name\<close> added is accepted and stores the new name.
\<close>

theorem UpdateItem_sends_no_attribute_names:
  "ExpressionAttributeNames (UpdateItem_request tableName key updateExpression vals) = None \<and>
   UpdateItem users_update_ddb ''users-update'' user1_key ''SET #n = :name''
       (Some [('':name'', AttributeValueMemberS ''Jane Doe'')]) =
     (Some ValidationException, users_update_ddb) \<and>
   fst (svc_UpdateItem users_update_ddb
       ((UpdateItem_request ''users-update'' user1_key ''SET #n = :name''
           (Some [('':name'', AttributeValueMemberS ''Jane Doe'')]))
        \<lparr>ExpressionAttributeNames := Some [(''#n'', ''name'')]\<rparr>)) = None \<and>
   GetItem (snd (svc_UpdateItem users_update_ddb
       ((UpdateItem_request ''users-update'' user1_key ''SET #n = :name''
           (Some [('':name'', AttributeValueMemberS ''Jane Doe'')]))
        \<lparr>ExpressionAttributeNames := Some [(''#n'', ''name'')]\<rparr>))) ''users-update'' user1_key =
     Inr (Some [(''name'', AttributeValueMemberS ''Jane Doe''),
                (''id'', AttributeValueMemberS ''user-1'')])"
  by (simp add: UpdateItem_def UpdateItem_request_def svc_UpdateItem_def GetItem_def
      svc_GetItem_def users_update_ddb_def user1_key_def user1_item_def key_id_def
      words_of_def resolve_path_def resolve_value_def set_attr_def Let_def)

section \<open>Properties of teardown\<close>

text \<open>
  Claim C4, as amended. What becomes of a terminate error depends on the path, and
  the paths are of five kinds.
  Logged only: the deferred closures of the multi-container integration test log
  it and return, with the test's failed mark as it was.
  Dropped: the bare deferred calls of the other two integration tests return as if
  nothing had happened; and where a setup step of a \<^verbatim>\<open>TestMain\<close> has failed
  after the container was started (host, port or configuration in the
  document-store package, endpoint or ping in the cache package), the terminate
  error is dropped and the process panics with the setup error, so the teardown
  error does not replace the primary failure there.
  Propagated through the test: the cleanup closures of \<^verbatim>\<open>setupPostgres\<close> and
  \<^verbatim>\<open>setupDynamoDB\<close> and the deferred closures of the per-test cache tests pass it
  to \<^verbatim>\<open>t.Fatalf\<close>: the line is logged after the lines already there, the test is
  marked failed and its goroutine exits.
  Propagated through the process: when every setup step went through, each
  \<^verbatim>\<open>TestMain\<close> panics with the terminate error instead of exiting with the
  tests' code.
\<close>

theorem teardown_error_by_path:
  "integration_deferred service t (Some err) =
     Returned (t\<lparr>logs := logs t @ [''failed to terminate '' @ service @ '' container: '' @ err]\<rparr>) \<and>
   bare_deferred t (Some err) = Returned t \<and>
   setupPostgres_cleanup t (Some err) =
     Goexit (t\<lparr>failed := True, logs := logs t @ [''failed to terminate container: '' @ err]\<rparr>) \<and>
   TestMain_teardown code (Some err) = PanicExit err \<and>
   setupDynamoDB_cleanup t (Some err) =
     Goexit (t\<lparr>failed := True, logs := logs t @ [''failed to terminate container: '' @ err]\<rparr>) \<and>
   redis_test_deferred t (Some err) =
     Goexit (t\<lparr>failed := True, logs := logs t @ [''failed to terminate container: '' @ err]\<rparr>) \<and>
   dynamodb_TestMain setup_ok code (Some err) = PanicExit err \<and>
   redis_TestMain redis_setup_ok code (Some err) = PanicExit err \<and>
   dynamodb_TestMain (setup_ok\<lparr>host_failed := Some e, port_failed := p, config_failed := g\<rparr>)
     code (Some err) = PanicExit e \<and>
   dynamodb_TestMain (setup_ok\<lparr>port_failed := Some e, config_failed := g\<rparr>)
     code (Some err) = PanicExit e \<and>
   dynamodb_TestMain (setup_ok\<lparr>config_failed := Some e\<rparr>) code (Some err) = PanicExit e \<and>
   redis_TestMain (redis_setup_ok\<lparr>endpoint_failed := Some e, ping_failed := p\<rparr>)
     code (Some err) = PanicExit e \<and>
   redis_TestMain (redis_setup_ok\<lparr>ping_failed := Some e\<rparr>) code (Some err) =
     PanicExit (''failed to ping redis: '' @ e)"
  by (simp add: integration_deferred_def bare_deferred_def setupPostgres_cleanup_def
      setupDynamoDB_cleanup_def redis_test_deferred_def TestMain_teardown_def
      dynamodb_TestMain_def redis_TestMain_def setup_ok_def redis_setup_ok_def
      Logf_def Fatalf_def)

text \<open>
  The theorem at a test that had passed and logged nothing, with the terminate error
  timeout; in the two \<^verbatim>\<open>TestMain\<close> functions the port mapping, respectively the
  ping, has failed with refused, and that is the error the process panics with.
\<close>

theorem teardown_error_by_path_witness:
  "integration_deferred ''redis'' \<lparr>failed = False, logs = []\<rparr> (Some ''timeout'') =
     Returned \<lparr>failed = False, logs = [''failed to terminate redis container: timeout'']\<rparr> \<and>
   bare_deferred \<lparr>failed = False, logs = []\<rparr> (Some ''timeout'') =
     Returned \<lparr>failed = False, logs = []\<rparr> \<and>
   TestMain_teardown 0 (Some ''timeout'') = PanicExit ''timeout'' \<and>
   setupDynamoDB_cleanup \<lparr>failed = False, logs = []\<rparr> (Some ''timeout'') =
     Goexit \<lparr>failed = True, logs = [''failed to terminate container: timeout'']\<rparr> \<and>
   dynamodb_TestMain (setup_ok\<lparr>port_failed := Some ''refused'', config_failed := None\<rparr>)
     0 (Some ''timeout'') = PanicExit ''refused'' \<and>
   redis_TestMain (redis_setup_ok\<lparr>ping_failed := Some ''refused''\<rparr>) 0 (Some ''timeout'') =
     PanicExit ''failed to ping redis: refused''"
  using teardown_error_by_path
    [where service = "''redis''" and t = "\<lparr>failed = False, logs = []\<rparr>"
       and err = "''timeout''" and code = 0 and e = "''refused''" and p = None and g = None]
  by simp

text \<open>
  Claim C4 as it was stated fails on the cleanup closure of \<^verbatim>\<open>setupPostgres\<close>
  and at the end of \<^verbatim>\<open>TestMain\<close>: a test that had passed and logged nothing is
  marked failed by the terminate error, and a run whose tests passed (code 0) ends
  in a panic.
\<close>

theorem setupPostgres_cleanup_fails_test:
  "setupPostgres_cleanup \<lparr>failed = False, logs = []\<rparr> (Some ''timeout'') =
     Goexit \<lparr>failed = True, logs = [''failed to terminate container: timeout'']\<rparr> \<and>
   TestMain_teardown 0 (Some ''timeout'') = PanicExit ''timeout'' \<and>
   TestMain_teardown 0 None = Exit 0"
  by (simp add: setupPostgres_cleanup_def TestMain_teardown_def Logf_def Fatalf_def)

end
